theory Spec2Isabelle
  imports
    Complex_Main
    "HOL-Library.Multiset"
    "HOL-Library.List_Lexorder"
    "HOL-Library.Char_ord"
    "HOL-Library.Product_Lexorder"
begin

section \<open>Risk engine: \<^verbatim>\<open>SurgeryRiskCalculator\<close>\<close>

text \<open>
  The numbers of \<^verbatim>\<open>app.py\<close>: \<^verbatim>\<open>age\<close> and \<^verbatim>\<open>asa_class\<close> are Python integers
  (unbounded, \<^typ>\<open>int\<close>); \<^verbatim>\<open>bmi\<close> is a Python float. Every finite float is a
  rational number and the comparisons with \<^verbatim>\<open>18.5\<close>, \<^verbatim>\<open>30\<close> and \<^verbatim>\<open>35\<close> are exact,
  so \<^verbatim>\<open>bmi\<close> is a \<^typ>\<open>rat\<close> here. Text is \<^typ>\<open>string\<close>; the comorbidities are
  the Python list that the multiselect widget returns.
\<close>

subsection \<open>The dictionary of surgery scores\<close>

definition surgery_scores :: "(string \<times> int) list" where
  "surgery_scores =
     [(''Minor'', 1), (''Moderate'', 3), (''Major'', 6), (''Complex'', 9)]"

text \<open>\<^verbatim>\<open>d.get(k, default)\<close>.\<close>

definition dict_get :: "(string \<times> int) list \<Rightarrow> string \<Rightarrow> int \<Rightarrow> int" where
  "dict_get d k dflt = (case map_of d k of None \<Rightarrow> dflt | Some v \<Rightarrow> v)"

subsection \<open>\<^verbatim>\<open>calculate_risk_score\<close>\<close>

text \<open>
  The body threads \<^verbatim>\<open>score\<close> through five blocks of \<^verbatim>\<open>score += ...\<close>; each
  \<^theory_text>\<open>let\<close> below is one block, in the order and with the branch order of the
  source.
\<close>

definition calculate_risk_score ::
  "int \<Rightarrow> rat \<Rightarrow> string list \<Rightarrow> string \<Rightarrow> int \<Rightarrow> int" where
  "calculate_risk_score age bmi comorbidities surgery_type asa_class =
     (let score = 0;
          score = (if age < 18 then score + 1
                   else if age < 40 then score + 2
                   else if age < 65 then score + 4
                   else score + 7);
          score = (if bmi < 18.5 then score + 3
                   else if bmi > 30 then score + 4
                   else if bmi > 35 then score + 6
                   else score);
          score = score + int (length comorbidities) * 2;
          score = score + dict_get surgery_scores surgery_type 3;
          score = score + asa_class * 2
      in min score 30)"

text \<open>
  What each block adds to \<^verbatim>\<open>score\<close>, block by block. That these five functions are
  the contributions of \<^const>\<open>calculate_risk_score\<close> is lemma
  \<open>calculate_risk_score_factors\<close> below.
\<close>

definition age_factor :: "int \<Rightarrow> int" where
  "age_factor age =
     (if age < 18 then 1 else if age < 40 then 2 else if age < 65 then 4 else 7)"

definition bmi_factor :: "rat \<Rightarrow> int" where
  "bmi_factor bmi =
     (if bmi < 18.5 then 3 else if bmi > 30 then 4 else if bmi > 35 then 6 else 0)"

definition comorbidity_factor :: "string list \<Rightarrow> int" where
  "comorbidity_factor comorbidities = int (length comorbidities) * 2"

definition surgery_factor :: "string \<Rightarrow> int" where
  "surgery_factor surgery_type = dict_get surgery_scores surgery_type 3"

definition asa_factor :: "int \<Rightarrow> int" where
  "asa_factor asa_class = asa_class * 2"

subsection \<open>The score as the specification states it\<close>

text \<open>
  The table of the specification, in its own words, to compare the code with: age
  below 18 gives 1, 18 to 39 gives 2, 40 to 64 gives 4, 65 and more gives 7; a
  \<open>bmi\<close> below 18.5 gives 3, above 35 gives 6 (checked before the branch for above
  30), above 30 and at most 35 gives 4, anything else 0; 2 for each distinct
  comorbidity; Minor 1, Moderate 3, Major 6, Complex 9 and 3 for an unknown type; twice
  the ASA class. The score is the sum of the five, capped at 30.
\<close>

definition age_contribution_spec :: "int \<Rightarrow> int" where
  "age_contribution_spec age =
     (if age < 18 then 1
      else if 18 \<le> age \<and> age < 40 then 2
      else if 40 \<le> age \<and> age < 65 then 4
      else 7)"

definition bmi_contribution_spec :: "rat \<Rightarrow> int" where
  "bmi_contribution_spec bmi =
     (if bmi < 18.5 then 3
      else if bmi > 35 then 6
      else if 30 < bmi \<and> bmi \<le> 35 then 4
      else 0)"

definition comorbidity_contribution_spec :: "string list \<Rightarrow> int" where
  "comorbidity_contribution_spec comorbidities = 2 * int (card (set comorbidities))"

definition surgery_contribution_spec :: "string \<Rightarrow> int" where
  "surgery_contribution_spec surgery_type =
     (if surgery_type = ''Minor'' then 1
      else if surgery_type = ''Moderate'' then 3
      else if surgery_type = ''Major'' then 6
      else if surgery_type = ''Complex'' then 9
      else 3)"

definition asa_contribution_spec :: "int \<Rightarrow> int" where
  "asa_contribution_spec asa_class = 2 * asa_class"

definition compute_score_spec ::
  "int \<Rightarrow> rat \<Rightarrow> string list \<Rightarrow> string \<Rightarrow> int \<Rightarrow> int" where
  "compute_score_spec age bmi comorbidities surgery_type asa_class =
     min (age_contribution_spec age + bmi_contribution_spec bmi
          + comorbidity_contribution_spec comorbidities
          + surgery_contribution_spec surgery_type
          + asa_contribution_spec asa_class) 30"

subsection \<open>\<^verbatim>\<open>get_risk_category\<close>\<close>

text \<open>
  The function returns the category name and an indicator glyph. The glyphs are the
  coloured circles U+1F7E2, U+1F7E1, U+1F7E0 and U+1F534, written as their UTF-8 bytes.
\<close>

definition green_circle :: string where
  "green_circle = [CHR 0xF0, CHR 0x9F, CHR 0x9F, CHR 0xA2]"

definition yellow_circle :: string where
  "yellow_circle = [CHR 0xF0, CHR 0x9F, CHR 0x9F, CHR 0xA1]"

definition orange_circle :: string where
  "orange_circle = [CHR 0xF0, CHR 0x9F, CHR 0x9F, CHR 0xA0]"

definition red_circle :: string where
  "red_circle = [CHR 0xF0, CHR 0x9F, CHR 0x94, CHR 0xB4]"

definition get_risk_category :: "int \<Rightarrow> string \<times> string" where
  "get_risk_category score =
     (if score \<le> 8 then (''Low'', green_circle)
      else if score \<le> 15 then (''Moderate'', yellow_circle)
      else if score \<le> 22 then (''High'', orange_circle)
      else (''Critical'', red_circle))"

subsection \<open>The mortality estimate of \<^verbatim>\<open>risk_assessment\<close>\<close>

text \<open>
  \<^verbatim>\<open>mortality_risk = min(risk_score * 0.5, 15)\<close>. The product of an integer with
  \<^verbatim>\<open>0.5\<close> is a float; it is exact for every integer below \<open>2\<^sup>5\<^sup>3\<close> in absolute
  value, and the scores of \<^const>\<open>calculate_risk_score\<close> are at most 30, so the
  value is the rational number below.
\<close>

definition mortality_risk :: "int \<Rightarrow> rat" where
  "mortality_risk risk_score = min (of_int risk_score * 0.5) 15"

section \<open>Patient store and pages\<close>

text \<open>
  \<^verbatim>\<open>st.session_state.patients\<close> is a Python list of dictionaries, one per registered
  patient, empty when the session starts. A dictionary with a fixed set of keys is a
  record. The first fourteen fields are the values of the form's widgets; the key
  \<^verbatim>\<open>'id'\<close> is the field \<open>patient_id\<close> (\<open>id\<close> is the identity function of HOL).
  A \<^verbatim>\<open>date\<close> is its year, month and day, compared in that order; a \<^verbatim>\<open>datetime\<close>
  is a number of microseconds.
\<close>

type_synonym date = "int \<times> int \<times> int"

type_synonym datetime = nat

record widgets =
  name :: string
  age :: int
  gender :: string
  height :: int
  weight :: int
  surgery_date :: date
  surgery_type :: string
  surgeon :: string
  asa_class :: int
  emergency :: bool
  comorbidities :: "string list"
  allergies :: string
  medications :: string
  "notes" :: string

record patient = widgets +
  patient_id :: int
  bmi :: rat
  registration_date :: datetime

text \<open>
  The pages turn the list into a \<^verbatim>\<open>DataFrame\<close> and add the columns
  \<^verbatim>\<open>risk_score\<close> and \<^verbatim>\<open>risk_category\<close>: a row is a patient with the two.
\<close>

record row = patient +
  risk_score :: int
  risk_category :: string

text \<open>
  What a page shows, in the order of its \<^verbatim>\<open>st.*\<close> calls: \<^verbatim>\<open>st.success\<close> (the
  message holds the patient's name and id), \<^verbatim>\<open>st.warning\<close>, \<^verbatim>\<open>st.dataframe\<close>, and
  the exception that Streamlit displays when the script raises one. The code has no
  call of \<^verbatim>\<open>st.error\<close> and raises no exception of its own.
\<close>

datatype py_error = KeyError string | ZeroDivisionError

datatype ui_element =
    Success string int
  | Warning string
  | Dataframe "row list"
  | Exception py_error

subsection \<open>The comorbidities multiselect\<close>



subsection \<open>\<^verbatim>\<open>patient_registration\<close>\<close>

text \<open>
  One run of the registration page: the stored list, whether the submit button was
  pressed, the widget values and the clock reading go in; the new list and what the
  page shows come out. \<open>float_bmi weight height\<close> stands for the float computation
  \<^verbatim>\<open>round(weight / ((height/100) ** 2), 2)\<close>, whose result is some finite float; it
  divides by zero exactly when the height is 0.
\<close>

definition patient_registration ::
  "(int \<Rightarrow> int \<Rightarrow> rat) \<Rightarrow> datetime \<Rightarrow> patient list \<Rightarrow> bool \<Rightarrow> widgets
     \<Rightarrow> patient list \<times> ui_element list" where
  "patient_registration float_bmi now patients submitted w =
     (if submitted \<and> name w \<noteq> [] then
        if height w = 0 then (patients, [Exception ZeroDivisionError])
        else
          (let new_id = int (length patients) + 1;
               patient = \<lparr>name = name w, age = age w, gender = gender w,
                          height = height w, weight = weight w,
                          surgery_date = surgery_date w, surgery_type = surgery_type w,
                          surgeon = surgeon w, asa_class = asa_class w,
                          emergency = emergency w, comorbidities = comorbidities w,
                          allergies = allergies w, medications = medications w,
                          notes = notes w,
                          patient_id = new_id,
                          bmi = float_bmi (weight w) (height w),
                          registration_date = now\<rparr>
           in (patients @ [patient], [Success (name w) new_id]))
      else (patients, []))"

text \<open>
  A session is a sequence of runs of the page; Streamlit keeps
  \<^verbatim>\<open>st.session_state.patients\<close> from one run to the next.
\<close>

fun session ::
  "(int \<Rightarrow> int \<Rightarrow> rat) \<Rightarrow> patient list \<Rightarrow> (datetime \<times> bool \<times> widgets) list
     \<Rightarrow> patient list" where
  "session float_bmi patients [] = patients"
| "session float_bmi patients ((now, submitted, w) # runs) =
     session float_bmi (fst (patient_registration float_bmi now patients submitted w)) runs"

subsection \<open>\<^verbatim>\<open>patient_records\<close>\<close>

text \<open>The two \<^verbatim>\<open>df.apply\<close> calls that add the risk columns to one row.\<close>

definition with_risk :: "patient \<Rightarrow> row" where
  "with_risk p =
     (let score = calculate_risk_score (age p) (bmi p) (comorbidities p)
                    (surgery_type p) (asa_class p)
      in patient.extend p (row.fields score (fst (get_risk_category score))))"

text \<open>
  The options of the \<^verbatim>\<open>Sort by\<close> selectbox, and the order of two rows in the chosen
  column: integers by value, strings as Python compares them (lexicographically by
  character code), dates by year, month and day.
\<close>

datatype sort_column = Col_name | Col_age | Col_risk_score | Col_surgery_date

fun column_le :: "sort_column \<Rightarrow> row \<Rightarrow> row \<Rightarrow> bool" where
  "column_le Col_name r s = (name r \<le> name s)"
| "column_le Col_age r s = (age r \<le> age s)"
| "column_le Col_risk_score r s = (risk_score r \<le> risk_score s)"
| "column_le Col_surgery_date r s = (surgery_date r \<le> surgery_date s)"

text \<open>
  The page: the guard on the empty list, the frame with its risk columns, the two
  \<^verbatim>\<open>isin\<close> masks joined by \<^verbatim>\<open>&\<close>, and \<^verbatim>\<open>sort_values(sort_by)\<close>.
  \<^verbatim>\<open>DataFrame.sort_values\<close> is the pandas library's, and the page calls it with its
  default \<^verbatim>\<open>kind='quicksort'\<close>, for which pandas promises an ascending result and
  no order among equal keys (only \<^verbatim>\<open>mergesort\<close> and \<^verbatim>\<open>stable\<close> are stable). The
  sorting routine is therefore an argument of the model. The table is shown with a
  selection of its columns; \<open>Dataframe\<close> holds the whole rows.
\<close>

definition patient_records ::
  "((row \<Rightarrow> row \<Rightarrow> bool) \<Rightarrow> row list \<Rightarrow> row list) \<Rightarrow> patient list
     \<Rightarrow> string list \<Rightarrow> string list \<Rightarrow> sort_column \<Rightarrow> ui_element list" where
  "patient_records sort_values patients risk_filter surgery_filter sort_by =
     (if patients = [] then [Warning ''No patient records available.'']
      else
        (let df = map with_risk patients;
             filtered_df =
               sort_values (column_le sort_by)
                 (filter (\<lambda>r. risk_category r \<in> set risk_filter
                              \<and> surgery_type r \<in> set surgery_filter) df)
         in [Dataframe filtered_df]))"

text \<open>
  What is assumed of a sorting routine: for each column it returns the rows it was
  given, rearranged in ascending order of that column.
\<close>

definition ascending_sort :: "((row \<Rightarrow> row \<Rightarrow> bool) \<Rightarrow> row list \<Rightarrow> row list) \<Rightarrow> bool" where
  "ascending_sort sort_values =
     (\<forall>c xs. mset (sort_values (column_le c) xs) = mset xs
             \<and> sorted_wrt (column_le c) (sort_values (column_le c) xs))"

text \<open>
  A routine that meets it, as an example: insertion sort, which puts each element in
  front of the first element that is not smaller.
\<close>

fun insert_before :: "('a \<Rightarrow> 'a \<Rightarrow> bool) \<Rightarrow> 'a \<Rightarrow> 'a list \<Rightarrow> 'a list" where
  "insert_before le x [] = [x]"
| "insert_before le x (y # ys) =
     (if le x y then x # y # ys else y # insert_before le x ys)"

definition sort_stable :: "('a \<Rightarrow> 'a \<Rightarrow> bool) \<Rightarrow> 'a list \<Rightarrow> 'a list" where
  "sort_stable le xs = foldr (insert_before le) xs []"

subsection \<open>The factor breakdown of \<^verbatim>\<open>risk_assessment\<close>\<close>

text \<open>\<^verbatim>\<open>d[k]\<close>, which raises \<^verbatim>\<open>KeyError\<close> for a key that is not in \<^verbatim>\<open>d\<close>.\<close>

definition dict_index :: "(string \<times> int) list \<Rightarrow> string \<Rightarrow> py_error + int" where
  "dict_index d k = (case map_of d k of None \<Rightarrow> Inl (KeyError k) | Some v \<Rightarrow> Inr v)"

text \<open>
  The dictionary \<^verbatim>\<open>factors\<close>, in the order of its keys. Only the subscript of the
  surgery dictionary can raise, and the entries before it have no effect of their own.
\<close>

definition factors :: "patient \<Rightarrow> py_error + (string \<times> int) list" where
  "factors patient =
     (case dict_index [(''Minor'', 1), (''Moderate'', 3), (''Major'', 6), (''Complex'', 9)]
             (surgery_type patient) of
        Inl e \<Rightarrow> Inl e
      | Inr complexity \<Rightarrow>
          Inr [(''Age Factor'', min (age patient div 10) 7),
               (''BMI Factor'',
                  if bmi patient > 30 then 4 else (if bmi patient < 18.5 then 3 else 1)),
               (''Comorbidities'', int (length (comorbidities patient)) * 2),
               (''Surgery Complexity'', complexity),
               (''ASA Class'', asa_class patient * 2)])"

subsection \<open>Example data\<close>

text \<open>
  The quotient of the body mass index in exact arithmetic. For a height of 200 and a
  weight of 100 every step of the float computation is exact and gives the same 25.
\<close>

definition bmi_exact :: "int \<Rightarrow> int \<Rightarrow> rat" where
  "bmi_exact w h = of_int w / (of_int h / 100) ^ 2"

definition example_widgets :: "string \<Rightarrow> int \<Rightarrow> string \<Rightarrow> widgets" where
  "example_widgets nm a t =
     \<lparr>name = nm, age = a, gender = ''Female'', height = 200, weight = 100,
      surgery_date = (2027, 1, 15), surgery_type = t, surgeon = ''Dr Rao'',
      asa_class = 1, emergency = False, comorbidities = [], allergies = [],
      medications = [], notes = []\<rparr>"

text \<open>Three registrations in a fresh session: ids 1, 2 and 3, ages 30, 30 and 70.\<close>

definition example_store :: "patient list" where
  "example_store =
     session bmi_exact []
       [(0, True, example_widgets ''Ann'' 30 ''Minor''),
        (1, True, example_widgets ''Bob'' 30 ''Minor''),
        (2, True, example_widgets ''Cy'' 70 ''Complex'')]"


section \<open>Properties of the risk engine\<close>

lemma calculate_risk_score_factors:
  "calculate_risk_score a b cs t asa =
     min (age_factor a + bmi_factor b + comorbidity_factor cs
          + surgery_factor t + asa_factor asa) 30"
  by (simp add: calculate_risk_score_def age_factor_def bmi_factor_def
      comorbidity_factor_def surgery_factor_def asa_factor_def Let_def)

text \<open>
  Claim C4. \<^const>\<open>get_risk_category\<close> splits the integers into four contiguous bands
  that do not overlap: a score is Low exactly when it is at most 8, Moderate exactly
  when it is 9 to 15, High exactly when it is 16 to 22 and Critical exactly when it is
  above 22; the boundary scores 8, 9, 15, 16, 22 and 23 are Low, Moderate, Moderate,
  High, High and Critical.
\<close>

theorem get_risk_category_bands:
  "(fst (get_risk_category score) = ''Low'') = (score \<le> 8)
   \<and> (fst (get_risk_category score) = ''Moderate'') = (9 \<le> score \<and> score \<le> 15)
   \<and> (fst (get_risk_category score) = ''High'') = (16 \<le> score \<and> score \<le> 22)
   \<and> (fst (get_risk_category score) = ''Critical'') = (22 < score)
   \<and> fst (get_risk_category 8) = ''Low''
   \<and> fst (get_risk_category 9) = ''Moderate''
   \<and> fst (get_risk_category 15) = ''Moderate''
   \<and> fst (get_risk_category 16) = ''High''
   \<and> fst (get_risk_category 22) = ''High''
   \<and> fst (get_risk_category 23) = ''Critical''"
  by (simp add: get_risk_category_def)

lemma surgery_factor_cases:
  "surgery_factor t =
     (if t = ''Minor'' then 1 else if t = ''Moderate'' then 3
      else if t = ''Major'' then 6 else if t = ''Complex'' then 9 else 3)"
  by (simp add: surgery_factor_def dict_get_def surgery_scores_def)

lemma surgery_factor_ge_1: "1 \<le> surgery_factor t"
  by (simp add: surgery_factor_cases)

lemma age_factor_ge_1: "1 \<le> age_factor a"
  by (simp add: age_factor_def)

lemma bmi_factor_ge_0: "0 \<le> bmi_factor b"
  by (simp add: bmi_factor_def)

lemma comorbidity_factor_ge_0: "0 \<le> comorbidity_factor cs"
  by (simp add: comorbidity_factor_def)

text \<open>
  Claim C1. The claim gives a patient with \<open>bmi > 35\<close> a BMI contribution of 6. In
  the code the test \<open>bmi > 30\<close> comes before the test \<open>bmi > 35\<close>, so the branch
  that adds 6 is never taken: the BMI contribution is 0, 3 or 4 and never 6, and
  every \<open>bmi\<close> above 35 contributes 4.
\<close>

theorem bmi_factor_above_35:
  "bmi_factor b \<noteq> 6 \<and> (35 < b \<longrightarrow> bmi_factor b = 4)"
  by (simp add: bmi_factor_def)

theorem bmi_factor_above_35_witness:
  "(35::rat) < 40 \<and> bmi_factor 40 = 4
   \<and> calculate_risk_score 30 40 [] ''Minor'' 1 = 9"
  using bmi_factor_above_35 [of 40]
  by (simp add: calculate_risk_score_factors age_factor_def comorbidity_factor_def
      surgery_factor_cases asa_factor_def)

lemma spec_contributions_agree:
  "age_contribution_spec a = age_factor a"
  "surgery_contribution_spec t = surgery_factor t"
  "asa_contribution_spec asa = asa_factor asa"
  by (simp_all add: age_contribution_spec_def age_factor_def
      surgery_contribution_spec_def surgery_factor_cases
      asa_contribution_spec_def asa_factor_def)

lemma comorbidity_contribution_spec_distinct:
  "distinct cs \<Longrightarrow> comorbidity_contribution_spec cs = comorbidity_factor cs"
  by (simp add: comorbidity_contribution_spec_def comorbidity_factor_def distinct_card)

lemma bmi_contribution_spec_le_35: "b \<le> 35 \<Longrightarrow> bmi_contribution_spec b = bmi_factor b"
  by (simp add: bmi_contribution_spec_def bmi_factor_def)

lemma bmi_contribution_spec_gt_35:
  "35 < b \<Longrightarrow> bmi_contribution_spec b = 6 \<and> bmi_factor b = 4"
  by (simp add: bmi_contribution_spec_def bmi_factor_def)

text \<open>
  Claim C5. The claim: for valid inputs the score is the sum of the five
  contributions of the specification's table, capped at 30, and so lies between 0
  and 30. The code's score does lie between 0 and 30, and for a \<open>bmi\<close> of at most 35
  it is that capped sum. For a \<open>bmi\<close> above 35 the code adds 4 where the table gives
  6 (the branch order of claim C1): its score is never above the capped sum of the
  table and is below it whenever it is below 30. For age 30, \<open>bmi\<close> 40, no
  comorbidity, a Minor surgery and ASA class 1 the code returns 9 and the table's sum
  is 11.
\<close>

theorem calculate_risk_score_against_spec:
  assumes "1 \<le> a" "a \<le> 120" "1 \<le> asa" "asa \<le> 5" "distinct cs"
  shows "0 \<le> calculate_risk_score a b cs t asa
         \<and> calculate_risk_score a b cs t asa \<le> 30
         \<and> (b \<le> 35 \<longrightarrow>
              calculate_risk_score a b cs t asa = compute_score_spec a b cs t asa)
         \<and> (35 < b \<longrightarrow>
              calculate_risk_score a b cs t asa \<le> compute_score_spec a b cs t asa
              \<and> (calculate_risk_score a b cs t asa < 30 \<longrightarrow>
                   calculate_risk_score a b cs t asa < compute_score_spec a b cs t asa))"
proof -
  let ?rest = "age_factor a + comorbidity_factor cs + surgery_factor t + asa_factor asa"
  have code: "calculate_risk_score a b cs t asa = min (?rest + bmi_factor b) 30"
    by (simp add: calculate_risk_score_factors add.commute add.left_commute)
  have spec: "compute_score_spec a b cs t asa = min (?rest + bmi_contribution_spec b) 30"
    using assms(5)
    by (simp add: compute_score_spec_def spec_contributions_agree
        comorbidity_contribution_spec_distinct add.commute add.left_commute)
  have "0 \<le> asa_factor asa"
    using assms(3) by (simp add: asa_factor_def)
  with age_factor_ge_1 [of a] comorbidity_factor_ge_0 [of cs] surgery_factor_ge_1 [of t]
  have rest: "0 \<le> ?rest"
    by linarith
  with bmi_factor_ge_0 [of b] have range: "0 \<le> calculate_risk_score a b cs t asa"
    "calculate_risk_score a b cs t asa \<le> 30"
    unfolding code by simp_all
  have le: "calculate_risk_score a b cs t asa = compute_score_spec a b cs t asa"
    if "b \<le> 35"
    unfolding code spec using bmi_contribution_spec_le_35 [OF that] by simp
  have gt: "calculate_risk_score a b cs t asa \<le> compute_score_spec a b cs t asa
      \<and> (calculate_risk_score a b cs t asa < 30 \<longrightarrow>
           calculate_risk_score a b cs t asa < compute_score_spec a b cs t asa)"
    if "35 < b"
    unfolding code spec using bmi_contribution_spec_gt_35 [OF that]
    by (simp add: min_def)
  from range le gt show ?thesis
    by blast
qed

theorem calculate_risk_score_against_spec_witness:
  "(1::int) \<le> 30 \<and> (30::int) \<le> 120 \<and> (1::int) \<le> 1 \<and> (1::int) \<le> 5
   \<and> distinct ([]::string list) \<and> (35::rat) < 40
   \<and> calculate_risk_score 30 40 [] ''Minor'' 1 = 9
   \<and> compute_score_spec 30 40 [] ''Minor'' 1 = 11
   \<and> calculate_risk_score 30 40 [] ''Minor'' 1 < compute_score_spec 30 40 [] ''Minor'' 1"
proof -
  have code: "calculate_risk_score 30 40 [] ''Minor'' 1 = 9"
    by (simp add: calculate_risk_score_factors age_factor_def bmi_factor_def
        comorbidity_factor_def surgery_factor_cases asa_factor_def)
  have "calculate_risk_score 30 40 [] ''Minor'' 1 < compute_score_spec 30 40 [] ''Minor'' 1"
    using calculate_risk_score_against_spec
      [where a = 30 and asa = 1 and cs = "[]" and b = 40 and t = "''Minor''"] code
    by simp
  moreover have "compute_score_spec 30 40 [] ''Minor'' 1 = 11"
    by (simp add: compute_score_spec_def age_contribution_spec_def
        bmi_contribution_spec_def comorbidity_contribution_spec_def
        surgery_contribution_spec_def asa_contribution_spec_def)
  ultimately show ?thesis
    using code by simp
qed

text \<open>
  Claim C6. The mortality estimate is \<open>min (score * 0.5) 15\<close>; it never exceeds 15
  and does not decrease when the score grows.
\<close>

theorem mortality_risk_monotone:
  "mortality_risk s = min (of_int s * 0.5) 15
   \<and> mortality_risk s \<le> 15
   \<and> (s1 \<le> s2 \<longrightarrow> mortality_risk s1 \<le> mortality_risk s2)"
  by (auto simp add: mortality_risk_def min_def)

theorem mortality_risk_monotone_witness:
  "(27::int) \<le> 30 \<and> mortality_risk 27 = 27 / 2 \<and> mortality_risk 30 = 15
   \<and> mortality_risk 27 \<le> mortality_risk 30"
  using mortality_risk_monotone [of 27 27 30]
  by (simp add: mortality_risk_def)

text \<open>
  Claim C9. For an age of at least 1 and an ASA class of 1 to 5 the age block adds at
  least 1, the surgery block at least 1 (3 for a surgery type that is not in the
  dictionary) and the ASA block at least 2, so the score is at least 4 and the
  mortality estimate at least 2.
\<close>

theorem calculate_risk_score_at_least_4:
  assumes "1 \<le> a" "1 \<le> asa" "asa \<le> 5"
  shows "1 \<le> age_factor a \<and> 1 \<le> surgery_factor t \<and> 2 \<le> asa_factor asa
         \<and> (t \<notin> {''Minor'', ''Moderate'', ''Major'', ''Complex''} \<longrightarrow> surgery_factor t = 3)
         \<and> 4 \<le> calculate_risk_score a b cs t asa
         \<and> 2 \<le> mortality_risk (calculate_risk_score a b cs t asa)"
proof -
  have asa: "2 \<le> asa_factor asa"
    using assms(2) by (simp add: asa_factor_def)
  with age_factor_ge_1 [of a] bmi_factor_ge_0 [of b]
    comorbidity_factor_ge_0 [of cs] surgery_factor_ge_1 [of t]
  have "4 \<le> age_factor a + bmi_factor b + comorbidity_factor cs
            + surgery_factor t + asa_factor asa"
    by linarith
  then have score: "4 \<le> calculate_risk_score a b cs t asa"
    by (simp add: calculate_risk_score_factors)
  then have "(4::rat) \<le> of_int (calculate_risk_score a b cs t asa)"
    by (metis of_int_le_iff of_int_numeral)
  then have "2 \<le> mortality_risk (calculate_risk_score a b cs t asa)"
    by (simp add: mortality_risk_def)
  with asa score show ?thesis
    by (simp add: age_factor_ge_1 surgery_factor_ge_1 surgery_factor_cases)
qed

theorem calculate_risk_score_at_least_4_witness:
  "(1::int) \<le> 1 \<and> (1::int) \<le> 5
   \<and> calculate_risk_score 1 22 [] ''Minor'' 1 = 4
   \<and> mortality_risk (calculate_risk_score 1 22 [] ''Minor'' 1) = 2
   \<and> surgery_factor ''Unknown'' = 3"
proof -
  have "4 \<le> calculate_risk_score 1 22 [] ''Minor'' 1"
    using calculate_risk_score_at_least_4 [of 1 1 "''Minor''" 22 "[]"] by simp
  moreover have "calculate_risk_score 1 22 [] ''Minor'' 1 \<le> 4"
    by (simp add: calculate_risk_score_factors age_factor_def bmi_factor_def
        comorbidity_factor_def surgery_factor_cases asa_factor_def)
  ultimately have "calculate_risk_score 1 22 [] ''Minor'' 1 = 4"
    by linarith
  then show ?thesis
    by (simp add: mortality_risk_def surgery_factor_cases)
qed

section \<open>Properties of the patient store\<close>

subsection \<open>Registration\<close>

lemma registration_cases:
  "fst (patient_registration float_bmi now ps submitted w) = ps
   \<or> (\<exists>p. fst (patient_registration float_bmi now ps submitted w) = ps @ [p]
          \<and> patient_id p = int (length ps) + 1)"
  by (simp add: patient_registration_def Let_def)

lemma registration_keeps_ids:
  assumes "map patient_id ps = map int [1..<Suc (length ps)]"
  shows "map patient_id (fst (patient_registration float_bmi now ps submitted w))
           = map int [1..<Suc (length (fst (patient_registration float_bmi now ps submitted w)))]"
  using registration_cases [of float_bmi now ps submitted w] assms
  by auto

lemma session_ids:
  "map patient_id ps = map int [1..<Suc (length ps)] \<Longrightarrow>
   map patient_id (session float_bmi ps runs)
     = map int [1..<Suc (length (session float_bmi ps runs))]"
proof (induction runs arbitrary: ps)
  case Nil
  then show ?case by simp
next
  case (Cons run runs)
  obtain now submitted w where run: "run = (now, submitted, w)"
    by (cases run) auto
  show ?case
    unfolding run session.simps
    by (rule Cons.IH) (rule registration_keeps_ids [OF Cons.prems])
qed

lemma sorted_ids: "sorted_wrt (<) (map int [1..<n])"
  by (simp add: sorted_wrt_map sorted_wrt_upt)

lemma distinct_ids: "distinct (map int [1..<n])"
  by (simp add: distinct_map)

lemma example_store_eval:
  "map patient_id example_store = [1, 2, 3] \<and> map age example_store = [30, 30, 70]
   \<and> map name example_store = [''Ann'', ''Bob'', ''Cy'']"
  by (simp add: example_store_def patient_registration_def example_widgets_def Let_def)

text \<open>
  Claim C7. A run of the registration page that registers (the button pressed, a name
  given, the height not 0) appends exactly one record, whose id is the number of
  records stored before plus 1. So after any sequence of runs that starts from the
  empty list the ids are 1, 2, ..., in this order: strictly increasing and distinct.
\<close>

theorem patient_registration_ids:
  "(submitted \<and> name w \<noteq> [] \<and> height w \<noteq> 0 \<longrightarrow>
      (\<exists>p. patient_registration float_bmi now ps submitted w
              = (ps @ [p], [Success (name w) (int (length ps) + 1)])
           \<and> patient_id p = int (length ps) + 1))
   \<and> map patient_id (session float_bmi [] runs)
        = map int [1..<Suc (length (session float_bmi [] runs))]
   \<and> sorted_wrt (<) (map patient_id (session float_bmi [] runs))
   \<and> distinct (map patient_id (session float_bmi [] runs))"
proof -
  have ids: "map patient_id (session float_bmi [] runs)
               = map int [1..<Suc (length (session float_bmi [] runs))]"
    by (rule session_ids) simp
  have "sorted_wrt (<) (map patient_id (session float_bmi [] runs))"
    unfolding ids by (rule sorted_ids)
  moreover have "distinct (map patient_id (session float_bmi [] runs))"
    unfolding ids by (rule distinct_ids)
  moreover have "submitted \<and> name w \<noteq> [] \<and> height w \<noteq> 0 \<longrightarrow>
      (\<exists>p. patient_registration float_bmi now ps submitted w
              = (ps @ [p], [Success (name w) (int (length ps) + 1)])
           \<and> patient_id p = int (length ps) + 1)"
    by (simp add: patient_registration_def Let_def)
  ultimately show ?thesis
    using ids by blast
qed

theorem patient_registration_ids_witness:
  "name (example_widgets ''Ann'' 30 ''Minor'') \<noteq> []
   \<and> height (example_widgets ''Ann'' 30 ''Minor'') \<noteq> 0
   \<and> map patient_id
        (fst (patient_registration bmi_exact 0 [] True (example_widgets ''Ann'' 30 ''Minor'')))
      = [1]
   \<and> snd (patient_registration bmi_exact 0 [] True (example_widgets ''Ann'' 30 ''Minor''))
      = [Success ''Ann'' 1]
   \<and> map patient_id example_store = [1, 2, 3]
   \<and> sorted_wrt (<) (map patient_id example_store)
   \<and> distinct (map patient_id example_store)"
  using patient_registration_ids
    [where submitted = True and w = "example_widgets ''Ann'' 30 ''Minor''"
       and float_bmi = bmi_exact and now = 0 and ps = "[]"
       and runs = "[(0, True, example_widgets ''Ann'' 30 ''Minor''),
                    (1, True, example_widgets ''Bob'' 30 ''Minor''),
                    (2, True, example_widgets ''Cy'' 70 ''Complex'')]"]
    example_store_eval
  by (auto simp add: example_store_def example_widgets_def)

text \<open>
  Claim C8, as stated: registering with an empty name fails with a ValidationError
  that is reported to the caller. In the code the guard \<^verbatim>\<open>if submitted and name\<close>
  has no other branch: with an empty name the page shows nothing at all, neither an
  error nor a message, and the list stays as it was.
\<close>

theorem registration_empty_name_counterexample:
  "snd (patient_registration bmi_exact 3 example_store True
          (example_widgets [] 30 ''Minor'')) = []
   \<and> fst (patient_registration bmi_exact 3 example_store True
            (example_widgets [] 30 ''Minor'')) = example_store"
  by (simp add: patient_registration_def example_widgets_def)

text \<open>
  Claim C8, amended: registering with an empty name appends nothing and leaves the
  stored list as it was, and the page reports nothing.
\<close>

theorem registration_empty_name_ignored:
  "name w = [] \<Longrightarrow> patient_registration float_bmi now ps submitted w = (ps, [])"
  by (simp add: patient_registration_def)

theorem registration_empty_name_ignored_witness:
  "name (example_widgets [] 30 ''Minor'') = []
   \<and> patient_registration bmi_exact 3 example_store True (example_widgets [] 30 ''Minor'')
       = (example_store, [])
   \<and> length example_store = 3"
proof -
  have n: "name (example_widgets [] 30 ''Minor'') = []"
    by (simp add: example_widgets_def)
  have "length (map patient_id example_store) = 3"
    using example_store_eval by simp
  then have "length example_store = 3"
    by simp
  with n registration_empty_name_ignored [OF n, of bmi_exact 3 example_store True]
  show ?thesis by simp
qed

subsection \<open>The comorbidities of a stored patient\<close>





subsection \<open>The factor breakdown\<close>

text \<open>
  Claim C10. The breakdown indexes its surgery dictionary without a default: for a
  surgery type outside Minor, Moderate, Major and Complex it raises KeyError, while
  \<^const>\<open>calculate_risk_score\<close> on the same patient returns a score, with 3 as the
  surgery contribution. For one of the four types the breakdown returns its five
  entries and raises nothing.
\<close>

theorem factors_key_error:
  "(surgery_type p \<notin> {''Minor'', ''Moderate'', ''Major'', ''Complex''} \<longrightarrow>
      factors p = Inl (KeyError (surgery_type p))
      \<and> surgery_factor (surgery_type p) = 3
      \<and> calculate_risk_score (age p) (bmi p) (comorbidities p) (surgery_type p) (asa_class p)
          = min (age_factor (age p) + bmi_factor (bmi p)
                 + comorbidity_factor (comorbidities p) + 3 + asa_factor (asa_class p)) 30)
   \<and> (surgery_type p \<in> {''Minor'', ''Moderate'', ''Major'', ''Complex''} \<longrightarrow>
      factors p =
        Inr [(''Age Factor'', min (age p div 10) 7),
             (''BMI Factor'', if bmi p > 30 then 4 else (if bmi p < 18.5 then 3 else 1)),
             (''Comorbidities'', int (length (comorbidities p)) * 2),
             (''Surgery Complexity'', surgery_factor (surgery_type p)),
             (''ASA Class'', asa_class p * 2)])"
  by (auto simp add: factors_def dict_index_def surgery_factor_cases
      calculate_risk_score_factors)

theorem factors_key_error_witness:
  "surgery_type (example_store ! 0) \<in> {''Minor'', ''Moderate'', ''Major'', ''Complex''}
   \<and> factors (example_store ! 0) =
        Inr [(''Age Factor'', 3), (''BMI Factor'', 1), (''Comorbidities'', 0),
             (''Surgery Complexity'', 1), (''ASA Class'', 2)]
   \<and> surgery_type ((example_store ! 0)\<lparr>surgery_type := ''Robotic''\<rparr>)
        \<notin> {''Minor'', ''Moderate'', ''Major'', ''Complex''}
   \<and> factors ((example_store ! 0)\<lparr>surgery_type := ''Robotic''\<rparr>) = Inl (KeyError ''Robotic'')
   \<and> calculate_risk_score 30 25 [] ''Robotic'' 1 = 7"
  using factors_key_error [of "example_store ! 0"]
    factors_key_error [of "(example_store ! 0)\<lparr>surgery_type := ''Robotic''\<rparr>"]
  by (simp add: example_store_def patient_registration_def example_widgets_def Let_def
      bmi_exact_def surgery_factor_cases age_factor_def bmi_factor_def
      comorbidity_factor_def asa_factor_def calculate_risk_score_factors)

subsection \<open>The records query\<close>

lemma column_le_total: "\<not> column_le c r s \<Longrightarrow> column_le c s r"
  by (cases c) (simp_all add: less_imp_le)

lemma column_le_trans:
  "column_le c r s \<Longrightarrow> column_le c s u \<Longrightarrow> column_le c r u"
proof (cases c)
  case Col_name
  assume "column_le c r s" "column_le c s u"
  with Col_name have "name r \<le> name s" "name s \<le> name u" by simp_all
  then have "name r \<le> name u" by (rule order_trans)
  with Col_name show ?thesis by simp
next
  case Col_age
  assume "column_le c r s" "column_le c s u"
  with Col_age have "age r \<le> age s" "age s \<le> age u" by simp_all
  then have "age r \<le> age u" by (rule order_trans)
  with Col_age show ?thesis by simp
next
  case Col_risk_score
  assume "column_le c r s" "column_le c s u"
  with Col_risk_score have "risk_score r \<le> risk_score s" "risk_score s \<le> risk_score u"
    by simp_all
  then have "risk_score r \<le> risk_score u" by (rule order_trans)
  with Col_risk_score show ?thesis by simp
next
  case Col_surgery_date
  assume "column_le c r s" "column_le c s u"
  with Col_surgery_date
  have "surgery_date r \<le> surgery_date s" "surgery_date s \<le> surgery_date u"
    by simp_all
  then have "surgery_date r \<le> surgery_date u" by (rule order_trans)
  with Col_surgery_date show ?thesis by simp
qed

lemma column_le_total_all: "\<forall>r s. \<not> column_le c r s \<longrightarrow> column_le c s r"
  using column_le_total by blast

lemma column_le_trans_all:
  "\<forall>r s u. column_le c r s \<longrightarrow> column_le c s u \<longrightarrow> column_le c r u"
  using column_le_trans by blast

lemma mset_insert_before: "mset (insert_before le x ys) = add_mset x (mset ys)"
  by (induction ys) auto

lemma set_insert_before: "set (insert_before le x ys) = insert x (set ys)"
  by (induction ys) auto

lemma sorted_insert_before:
  assumes total: "\<forall>a b. \<not> le a b \<longrightarrow> le b a"
    and trans: "\<forall>a b c. le a b \<longrightarrow> le b c \<longrightarrow> le a c"
  shows "sorted_wrt le ys \<Longrightarrow> sorted_wrt le (insert_before le x ys)"
proof (induction ys)
  case Nil
  then show ?case by simp
next
  case (Cons y ys)
  show ?case
  proof (cases "le x y")
    case True
    have "le x z" if "z \<in> set ys" for z
    proof -
      from Cons.prems that have "le y z" by simp
      with True trans show ?thesis by blast
    qed
    with True Cons.prems show ?thesis
      by simp
  next
    case False
    with total have "le y x" by blast
    moreover from Cons have "sorted_wrt le (insert_before le x ys)" by simp
    moreover from Cons.prems have "\<forall>z\<in>set ys. le y z" by simp
    ultimately show ?thesis
      using False by (simp add: set_insert_before)
  qed
qed

lemma mset_sort_stable: "mset (sort_stable le xs) = mset xs"
  by (induction xs) (simp_all add: sort_stable_def mset_insert_before)

lemma sorted_sort_stable:
  assumes "\<forall>a b. \<not> le a b \<longrightarrow> le b a" "\<forall>a b c. le a b \<longrightarrow> le b c \<longrightarrow> le a c"
  shows "sorted_wrt le (sort_stable le xs)"
proof (induction xs)
  case Nil
  show ?case by (simp add: sort_stable_def)
next
  case (Cons x xs)
  then have "sorted_wrt le (foldr (insert_before le) xs [])"
    by (simp add: sort_stable_def)
  then have "sorted_wrt le (insert_before le x (foldr (insert_before le) xs []))"
    by (rule sorted_insert_before [OF assms])
  then show ?case
    by (simp add: sort_stable_def)
qed

lemma ascending_sort_stable: "ascending_sort sort_stable"
  unfolding ascending_sort_def
proof (intro allI conjI)
  fix c xs
  show "mset (sort_stable (column_le c) xs) = mset xs"
    by (rule mset_sort_stable)
  show "sorted_wrt (column_le c) (sort_stable (column_le c) xs)"
    by (rule sorted_sort_stable [OF column_le_total_all column_le_trans_all])
qed

lemmas records_eval =
  example_store_def patient_registration_def example_widgets_def Let_def
  patient_records_def with_risk_def calculate_risk_score_def get_risk_category_def
  dict_get_def surgery_scores_def bmi_exact_def patient.defs row.defs widgets.defs

text \<open>
  The records query, for any sorting routine that returns its rows in ascending order.
  For a store that is not empty, any two filter lists and any of the four sort
  columns, the page shows one table; its rows are exactly the rows of the store, with
  their computed risk columns, whose risk category is in the one list and whose
  surgery type is in the other (an empty list selects nothing), each as often as the
  store holds it, in ascending order of the sort column. For the empty store the page
  shows its warning and no table. Whether rows with equal keys keep their order of
  insertion (the last part of claim C2) is decided inside the sort of the pandas
  library, which is not part of the program's source, and is left open here.
\<close>

lemma patient_records_filtered_sorted:
  assumes "ascending_sort sort_values" "patients \<noteq> []"
  shows "(\<exists>rows. patient_records sort_values patients risk_filter surgery_filter sort_by
                  = [Dataframe rows]
            \<and> mset rows = mset (filter (\<lambda>r. risk_category r \<in> set risk_filter
                                          \<and> surgery_type r \<in> set surgery_filter)
                                   (map with_risk patients))
            \<and> sorted_wrt (column_le sort_by) rows
            \<and> (risk_filter = [] \<or> surgery_filter = [] \<longrightarrow> rows = []))
         \<and> patient_records sort_values [] risk_filter surgery_filter sort_by
             = [Warning ''No patient records available.'']"
proof -
  let ?sel = "filter (\<lambda>r. risk_category r \<in> set risk_filter
                         \<and> surgery_type r \<in> set surgery_filter) (map with_risk patients)"
  let ?rows = "sort_values (column_le sort_by) ?sel"
  from assms(1) have m: "mset ?rows = mset ?sel"
    and s: "sorted_wrt (column_le sort_by) ?rows"
    unfolding ascending_sort_def by blast+
  have e: "?rows = []" if "risk_filter = [] \<or> surgery_filter = []"
  proof -
    from that have "?sel = []" by auto
    with m show ?thesis by simp
  qed
  from assms(2) have "patient_records sort_values patients risk_filter surgery_filter sort_by
      = [Dataframe ?rows]"
    by (simp add: patient_records_def)
  moreover have "patient_records sort_values [] risk_filter surgery_filter sort_by
      = [Warning ''No patient records available.'']"
    by (simp add: patient_records_def)
  ultimately show ?thesis
    using m s e by blast
qed

lemma patient_records_filtered_sorted_example:
  "ascending_sort sort_stable \<and> example_store \<noteq> []
   \<and> patient_records sort_stable example_store [''Low''] [''Minor''] Col_name
       = [Dataframe [with_risk (example_store ! 0), with_risk (example_store ! 1)]]
   \<and> map risk_category (map with_risk example_store) = [''Low'', ''Low'', ''High'']
   \<and> patient_records sort_stable example_store [] [''Minor''] Col_name = [Dataframe []]"
proof -
  have ne: "example_store \<noteq> []"
    using example_store_eval by auto
  have "\<exists>rows. patient_records sort_stable example_store [] [''Minor''] Col_name
                 = [Dataframe rows] \<and> rows = []"
    using patient_records_filtered_sorted
      [OF ascending_sort_stable ne, of "[]" "[''Minor'']" Col_name]
    by auto
  then have "patient_records sort_stable example_store [] [''Minor''] Col_name
               = [Dataframe []]"
    by auto
  moreover have "patient_records sort_stable example_store [''Low''] [''Minor''] Col_name
       = [Dataframe [with_risk (example_store ! 0), with_risk (example_store ! 1)]]"
    by (simp add: records_eval sort_stable_def)
  moreover have "map risk_category (map with_risk example_store)
       = [''Low'', ''Low'', ''High'']"
    by (simp add: records_eval)
  ultimately show ?thesis
    using ascending_sort_stable ne by simp
qed

end
